theory Spec2Isabelle
  imports Main "HOL-Library.Sublist"
begin

section \<open>Python string primitives used by the command interpreter\<close>

text \<open>
  Command lines are ASCII text, modelled as \<^typ>\<open>string\<close>.  Three methods of Python's
  \<^verbatim>\<open>str\<close> are used by \<^verbatim>\<open>execute_command\<close>: \<^verbatim>\<open>strip()\<close>,
  \<^verbatim>\<open>lower()\<close> (and \<^verbatim>\<open>upper()\<close>) and \<^verbatim>\<open>split(' ')\<close>.
  On ASCII, \<^verbatim>\<open>str.isspace\<close> holds for the code points 9 to 13, 28 to 31 and 32.
\<close>

definition is_space :: "char \<Rightarrow> bool" where
  "is_space c = ((of_char c :: nat) \<in> set [9, 10, 11, 12, 13, 28, 29, 30, 31, 32])"

definition strip :: "string \<Rightarrow> string" where
  "strip s = rev (dropWhile is_space (rev (dropWhile is_space s)))"

definition lower_char :: "char \<Rightarrow> char" where
  "lower_char c =
     (let n = (of_char c :: nat) in if 65 \<le> n \<and> n \<le> 90 then char_of (n + 32) else c)"

definition upper_char :: "char \<Rightarrow> char" where
  "upper_char c =
     (let n = (of_char c :: nat) in if 97 \<le> n \<and> n \<le> 122 then char_of (n - 32) else c)"

definition lower :: "string \<Rightarrow> string" where
  "lower s = map lower_char s"

definition upper :: "string \<Rightarrow> string" where
  "upper s = map upper_char s"

text \<open>
  \<^verbatim>\<open>s.split(sep)\<close> with an explicit one-character separator cuts at every occurrence
  of the separator; it never merges adjacent separators and never returns an empty list
  (\<^verbatim>\<open>''.split(' ') == ['']\<close>).
\<close>

fun split :: "char \<Rightarrow> string \<Rightarrow> string list" where
  "split sep [] = [[]]"
| "split sep (c # cs) =
     (if c = sep then [] # split sep cs
      else (let r = split sep cs in (c # hd r) # tl r))"

text \<open>Line 66: \<^verbatim>\<open>cmd, *args = command.strip().lower().split(' ')\<close>.\<close>

definition tokens :: "string \<Rightarrow> string list" where
  "tokens command = split (CHR '' '') (lower (strip command))"

definition parse_command :: "string \<Rightarrow> string \<times> string list" where
  "parse_command command = (hd (tokens command), tl (tokens command))"


section \<open>Exceptions, collaborators and observable effects\<close>

text \<open>
  Every \<^verbatim>\<open>raise\<close> is a value.  \<open>IndexError\<close> comes from \<^verbatim>\<open>args[i]\<close>,
  \<open>ValueError\<close> from \<^verbatim>\<open>chess.parse_square\<close>, \<open>KeyError\<close> from the enum lookups
  \<^verbatim>\<open>Button[...]\<close> and \<^verbatim>\<open>LEDPallete[...]\<close>, \<open>SystemExit\<close> from
  \<^verbatim>\<open>exit(0)\<close>.  \<open>Failure\<close> is an exception raised inside a collaborator (serial
  port, camera, detector), with its message.  Collaborators are taken to raise exceptions
  derived from \<^verbatim>\<open>Exception\<close> only, which \<^verbatim>\<open>except Exception\<close> catches;
  \<^verbatim>\<open>SystemExit\<close> is not one of them.
\<close>

type_synonym failure = string

datatype exn = IndexError | ValueError | KeyError string | SystemExit int | Failure failure

datatype outcome = Returned | Raised exn

text \<open>
  The enum \<^verbatim>\<open>State\<close> is declared in \<^verbatim>\<open>game_controller\<close>; this file names five of
  its members.  \<open>OTHER n\<close> stands for any further member, \<open>n\<close> being its name.
\<close>

datatype State = STARTING | READY | HUMAN_TURN | COMPUTER_TURN | ERROR | OTHER string

fun state_name :: "State \<Rightarrow> string" where
  "state_name STARTING = ''STARTING''"
| "state_name READY = ''READY''"
| "state_name HUMAN_TURN = ''HUMAN_TURN''"
| "state_name COMPUTER_TURN = ''COMPUTER_TURN''"
| "state_name ERROR = ''ERROR''"
| "state_name (OTHER n) = n"

datatype flip = flip_horizontal | flip_vertical

text \<open>
  What \<^verbatim>\<open>execute_command\<close> does to the outside world is recorded as a list of events,
  in program order: the calls of \<^verbatim>\<open>print\<close> (\<open>Print\<close> with the string arguments,
  \<open>PrintErr\<close> for \<^verbatim>\<open>print(label, err)\<close>, \<open>PrintBoard\<close> for \<^verbatim>\<open>print(board)\<close>),
  the calls of \<^verbatim>\<open>show_image\<close>, and every call made on the game controller.  The two
  output primitives \<^verbatim>\<open>print\<close> and \<^verbatim>\<open>show_image\<close> are taken not to raise.
\<close>

datatype ('img, 'pos, 'brd) event =
    Print "string list"
  | PrintErr string exn
  | PrintBoard 'brd
  | ShowImage 'img string
  | MoveToSquare nat
  | SetElectromagnet bool
  | SetButtonLight string bool
  | SetLedPallete string
  | SetAutoplay bool
  | GetImage
  | DetectPiecePositions 'img
  | GenerateBoard 'pos

text \<open>
  The game controller, the Arduino driver and the detector are collaborators.  Their state
  is an opaque value of type \<open>'g\<close>; each operation maps it to a new one and may raise.
  An enum declared elsewhere (\<^verbatim>\<open>Button\<close>, \<^verbatim>\<open>LEDPallete\<close>) is given by the list of
  its member names.  \<open>detect_piece_positions\<close> receives \<^verbatim>\<open>show=self.show_image\<close>: the
  images it displays through that callback are the first component of its result.
\<close>

record ('g, 'img, 'pos, 'brd) collaborators =
  arduino_update :: "'g \<Rightarrow> failure option \<times> 'g"
  game_state :: "'g \<Rightarrow> State"
  gantry_pos :: "'g \<Rightarrow> string"
  electromagnet_enabled :: "'g \<Rightarrow> bool"
  move_to_square :: "nat \<Rightarrow> 'g \<Rightarrow> failure option \<times> 'g"
  set_electromagnet :: "bool \<Rightarrow> 'g \<Rightarrow> failure option \<times> 'g"
  Button :: "string list"
  set_button_light :: "string \<Rightarrow> bool \<Rightarrow> 'g \<Rightarrow> failure option \<times> 'g"
  LEDPallete :: "string list"
  set_led_pallete :: "string \<Rightarrow> 'g \<Rightarrow> failure option \<times> 'g"
  set_autoplay :: "bool \<Rightarrow> 'g \<Rightarrow> failure option \<times> 'g"
  get_image :: "'g \<Rightarrow> (failure + 'img) \<times> 'g"
  detect_piece_positions :: "'img \<Rightarrow> 'g \<Rightarrow> ('img \<times> string) list \<times> (failure + 'pos) \<times> 'g"
  generate_board :: "'pos \<Rightarrow> 'g \<Rightarrow> (failure + 'brd) \<times> 'g"
  transform :: "flip \<Rightarrow> 'brd \<Rightarrow> 'brd"

fun outcome_of :: "failure option \<Rightarrow> outcome" where
  "outcome_of None = Returned"
| "outcome_of (Some msg) = Raised (Failure msg)"

text \<open>\<^verbatim>\<open>Enum[name]\<close>: the member of that name, or \<^verbatim>\<open>KeyError(name)\<close>.\<close>

definition enum_getitem :: "string list \<Rightarrow> string \<Rightarrow> exn + string" where
  "enum_getitem members name = (if name \<in> set members then Inr name else Inl (KeyError name))"

subsection \<open>The two functions of the chess library\<close>

text \<open>
  \<^verbatim>\<open>chess.SQUARE_NAMES\<close> is \<^verbatim>\<open>[f + r for r in RANK_NAMES for f in FILE_NAMES]\<close>;
  \<^verbatim>\<open>chess.parse_square(name)\<close> is \<^verbatim>\<open>SQUARE_NAMES.index(name)\<close>, a
  \<^verbatim>\<open>ValueError\<close> when the name is not in the list, and \<^verbatim>\<open>chess.square_name(sq)\<close>
  is \<^verbatim>\<open>SQUARE_NAMES[sq]\<close>.
\<close>

definition FILE_NAMES :: string where
  "FILE_NAMES = ''abcdefgh''"

definition RANK_NAMES :: string where
  "RANK_NAMES = ''12345678''"

definition SQUARE_NAMES :: "string list" where
  "SQUARE_NAMES = concat (map (\<lambda>r. map (\<lambda>f. [f, r]) FILE_NAMES) RANK_NAMES)"

fun index_of :: "'a \<Rightarrow> 'a list \<Rightarrow> nat option" where
  "index_of x [] = None"
| "index_of x (y # ys) = (if x = y then Some 0 else map_option Suc (index_of x ys))"

definition parse_square :: "string \<Rightarrow> exn + nat" where
  "parse_square name = (case index_of name SQUARE_NAMES of None \<Rightarrow> Inl ValueError | Some i \<Rightarrow> Inr i)"

definition square_name :: "nat \<Rightarrow> string" where
  "square_name sq = SQUARE_NAMES ! sq"


section \<open>The command interpreter: \<^verbatim>\<open>DashboardDelegate.execute_command\<close>\<close>

text \<open>
  The result of a run is the list of events, how the call ended, and the collaborators'
  new state.  \<open>args_item\<close> is \<^verbatim>\<open>args[i]\<close>: an \<^verbatim>\<open>IndexError\<close> out of range.
\<close>

type_synonym ('g, 'img, 'pos, 'brd) run = "('img, 'pos, 'brd) event list \<times> outcome \<times> 'g"

definition args_item :: "string list \<Rightarrow> nat \<Rightarrow> exn + string" where
  "args_item args i = (if i < length args then Inr (args ! i) else Inl IndexError)"

definition on_off :: "bool \<Rightarrow> string" where
  "on_off enabled = (if enabled then ''ON'' else ''OFF'')"

text \<open>Lines 68 to 71.\<close>

definition cmd_move ::
  "('g, 'img, 'pos, 'brd) collaborators \<Rightarrow> string list \<Rightarrow> 'g \<Rightarrow> ('g, 'img, 'pos, 'brd) run" where
  "cmd_move C args g =
     (case args_item args 0 of
        Inl e \<Rightarrow> ([], Raised e, g)
      | Inr a \<Rightarrow>
          (case parse_square a of
             Inl e \<Rightarrow> ([], Raised e, g)
           | Inr square \<Rightarrow>
               (case move_to_square C square g of
                  (r, g') \<Rightarrow>
                    ([Print [''Moving to square:'', square_name square], MoveToSquare square],
                     outcome_of r, g'))))"

text \<open>Lines 72 to 75.\<close>

definition cmd_magnet ::
  "('g, 'img, 'pos, 'brd) collaborators \<Rightarrow> string list \<Rightarrow> 'g \<Rightarrow> ('g, 'img, 'pos, 'brd) run" where
  "cmd_magnet C args g =
     (case args_item args 0 of
        Inl e \<Rightarrow> ([], Raised e, g)
      | Inr a \<Rightarrow>
          (let enabled = (a = ''on'') in
           case set_electromagnet C (a = ''on'') g of
             (r, g') \<Rightarrow>
               ([Print [''Turning magnet'', on_off enabled], SetElectromagnet (a = ''on'')],
                outcome_of r, g')))"

text \<open>Lines 76 to 80: \<^verbatim>\<open>args[1]\<close> is read before the button is looked up.\<close>

definition cmd_bled ::
  "('g, 'img, 'pos, 'brd) collaborators \<Rightarrow> string list \<Rightarrow> 'g \<Rightarrow> ('g, 'img, 'pos, 'brd) run" where
  "cmd_bled C args g =
     (case args_item args 1 of
        Inl e \<Rightarrow> ([], Raised e, g)
      | Inr a1 \<Rightarrow>
          (let enabled = (a1 = ''on'') in
           case args_item args 0 of
             Inl e \<Rightarrow> ([], Raised e, g)
           | Inr a0 \<Rightarrow>
               (case enum_getitem (Button C) (upper a0) of
                  Inl e \<Rightarrow> ([], Raised e, g)
                | Inr button \<Rightarrow>
                    (case set_button_light C button enabled g of
                       (r, g') \<Rightarrow>
                         ([Print [''Turning button light'', button, on_off enabled],
                           SetButtonLight button enabled],
                          outcome_of r, g')))))"

text \<open>Lines 81 to 84.\<close>

definition cmd_leds ::
  "('g, 'img, 'pos, 'brd) collaborators \<Rightarrow> string list \<Rightarrow> 'g \<Rightarrow> ('g, 'img, 'pos, 'brd) run" where
  "cmd_leds C args g =
     (case args_item args 0 of
        Inl e \<Rightarrow> ([], Raised e, g)
      | Inr a \<Rightarrow>
          (case enum_getitem (LEDPallete C) (upper a) of
             Inl e \<Rightarrow> ([], Raised e, g)
           | Inr pallete \<Rightarrow>
               (case set_led_pallete C pallete g of
                  (r, g') \<Rightarrow>
                    ([Print [''Setting LEDs to Pallete:'', pallete], SetLedPallete pallete],
                     outcome_of r, g'))))"

text \<open>Lines 85 and 86.\<close>

definition cmd_autoplay ::
  "('g, 'img, 'pos, 'brd) collaborators \<Rightarrow> string list \<Rightarrow> 'g \<Rightarrow> ('g, 'img, 'pos, 'brd) run" where
  "cmd_autoplay C args g =
     (case args_item args 0 of
        Inl e \<Rightarrow> ([], Raised e, g)
      | Inr a \<Rightarrow>
          (case set_autoplay C (a = ''on'') g of
             (r, g') \<Rightarrow> ([SetAutoplay (a = ''on'')], outcome_of r, g')))"

text \<open>
  Lines 87 to 105.  Both \<^verbatim>\<open>try\<close> blocks catch \<^verbatim>\<open>Exception\<close> and end in
  \<^verbatim>\<open>return\<close>; the second one covers \<^verbatim>\<open>detect_piece_positions\<close> and
  \<^verbatim>\<open>generate_board\<close>.
\<close>

definition cmd_camshow ::
  "('g, 'img, 'pos, 'brd) collaborators \<Rightarrow> 'g \<Rightarrow> ('g, 'img, 'pos, 'brd) run" where
  "cmd_camshow C g =
     (case get_image C g of
        (Inl err, g1) \<Rightarrow>
          ([Print [''Fetching image...''], GetImage, PrintErr ''Failed to load image:'' (Failure err)],
           Returned, g1)
      | (Inr img, g1) \<Rightarrow>
          (let pre = [Print [''Fetching image...''], GetImage, Print [''Recognizing board...''],
                      DetectPiecePositions img] in
           case detect_piece_positions C img g1 of
             (shown, Inl err, g2) \<Rightarrow>
               (pre @ map (\<lambda>(i, title). ShowImage i title) shown @
                  [ShowImage img ''Failed to Detect Piece Positions:'',
                   PrintErr ''Failed to detect piece positions:'' (Failure err)],
                Returned, g2)
           | (shown, Inr positions, g2) \<Rightarrow>
               (let pre2 = pre @ map (\<lambda>(i, title). ShowImage i title) shown @
                             [GenerateBoard positions] in
                case generate_board C positions g2 of
                  (Inl err, g3) \<Rightarrow>
                    (pre2 @
                       [ShowImage img ''Failed to Detect Piece Positions:'',
                        PrintErr ''Failed to detect piece positions:'' (Failure err)],
                     Returned, g3)
                | (Inr board, g3) \<Rightarrow>
                    (pre2 @
                       [Print [''Board (computer perspective):''],
                        PrintBoard (transform C flip_vertical (transform C flip_horizontal board))],
                     Returned, g3))))"

text \<open>
  Lines 62 to 109.  The last branch prints the command as it was received, not the
  stripped and lowercased text.
\<close>

definition execute_command ::
  "('g, 'img, 'pos, 'brd) collaborators \<Rightarrow> string \<Rightarrow> 'g \<Rightarrow> ('g, 'img, 'pos, 'brd) run" where
  "execute_command C command g =
     (case parse_command command of
        (cmd, args) \<Rightarrow>
          if cmd = ''move'' then cmd_move C args g
          else if cmd = ''magnet'' then cmd_magnet C args g
          else if cmd = ''bled'' then cmd_bled C args g
          else if cmd = ''leds'' then cmd_leds C args g
          else if cmd = ''autoplay'' then cmd_autoplay C args g
          else if cmd = ''camshow'' then cmd_camshow C g
          else if cmd = ''exit'' then ([], Raised (SystemExit 0), g)
          else ([Print [''Unknown Command: '' @ [CHR 0x27] @ command @ [CHR 0x27]]], Returned, g))"


section \<open>The status line: \<^verbatim>\<open>DashboardDelegate.make_statusline\<close>\<close>

text \<open>Lines 23 to 29: the dictionary, as the list of its items.\<close>

definition GAME_STATE_STATUSLINE_COLORS :: "(State \<times> string) list" where
  "GAME_STATE_STATUSLINE_COLORS =
     [(STARTING, ''ansiblack bg:ansigray''),
      (READY, ''bg:ansigreen''),
      (HUMAN_TURN, ''bg:#FF69B4''),
      (COMPUTER_TURN, ''ansiblack bg:#66AAFF''),
      (ERROR, ''bg:ansired'')]"

text \<open>\<^verbatim>\<open>d.get(key, default)\<close>.\<close>

definition dict_get :: "('k \<times> 'v) list \<Rightarrow> 'k \<Rightarrow> 'v \<Rightarrow> 'v" where
  "dict_get d k dflt = (case map_of d k of None \<Rightarrow> dflt | Some v \<Rightarrow> v)"

definition statusline_color :: "State \<Rightarrow> string" where
  "statusline_color st = dict_get GAME_STATE_STATUSLINE_COLORS st ''ansiblack bg:ansiwhite''"

text \<open>\<^verbatim>\<open>sep.join(xs)\<close>.\<close>

fun join :: "string \<Rightarrow> string list \<Rightarrow> string" where
  "join sep [] = []"
| "join sep [x] = x"
| "join sep (x # y # ys) = x @ sep @ join sep (y # ys)"

text \<open>
  Lines 45 to 60.  \<open>gantry_pos\<close> is \<^verbatim>\<open>str(self.game.arduino.gantry_pos)\<close>.  The
  result is the pair (color, text), or the exception of \<^verbatim>\<open>arduino.update()\<close>.
\<close>

definition make_statusline ::
  "('g, 'img, 'pos, 'brd) collaborators \<Rightarrow> 'g \<Rightarrow> (exn + string \<times> string) \<times> 'g" where
  "make_statusline C g =
     (case arduino_update C g of
        (Some msg, g') \<Rightarrow> (Inl (Failure msg), g')
      | (None, g') \<Rightarrow>
          (let st = game_state C g';
               text =
                 (if st = STARTING then ''Starting...''
                  else join '' / '' (map (join '' '')
                         [[''State:'', state_name st],
                          [''Gantry:'', gantry_pos C g'],
                          [''Magnet:'', on_off (electromagnet_enabled C g')]]))
           in (Inr (statusline_color st, text), g')))"

section \<open>The bridge: \<^verbatim>\<open>DashboardDelegateThread\<close>\<close>

text \<open>
  Lines 120 to 123: the attributes shared by the two threads.  No lock guards them; the
  only lock of the class, \<^verbatim>\<open>wait_for_ready\<close>, is held while the controller is built.
\<close>

record thread =
  status_line :: string
  status_line_color :: string
  status_line_stale :: bool
  commands :: "string list"

definition initial_thread :: thread where
  "initial_thread =
     \<lparr> status_line = ''Loading...'', status_line_color = ''bg:ansigray'',
       status_line_stale = True, commands = [] \<rparr>"

text \<open>Lines 136 to 142: each getter returns its value and the object after the call.\<close>

definition get_status_line :: "'a thread_scheme \<Rightarrow> string \<times> 'a thread_scheme" where
  "get_status_line t = (let t' = t\<lparr>status_line_stale := True\<rparr> in (status_line t', t'))"

definition get_status_line_color :: "'a thread_scheme \<Rightarrow> string \<times> 'a thread_scheme" where
  "get_status_line_color t = (status_line_color t, t)"

text \<open>
  Modelled from the spec: the foreground's submission of a command, which is code of the
  dashboard and not of this file.  The spec's \<open>enqueue\<close> "appends to the tail" of the
  deque created in \<^verbatim>\<open>__init__\<close>.
\<close>

definition enqueue :: "string \<Rightarrow> 'a thread_scheme \<Rightarrow> 'a thread_scheme" where
  "enqueue command t = t\<lparr>commands := commands t @ [command]\<rparr>"

text \<open>
  The worker: the thread object, the collaborators' state, the exception that ended
  \<^verbatim>\<open>run\<close> (if any), and two logs kept for the proofs: the events of all commands
  executed and the commands that were passed to \<^verbatim>\<open>execute_command\<close>.
\<close>

record ('g, 'img, 'pos, 'brd) worker = thread +
  game :: 'g
  crashed :: "exn option"
  events :: "('img, 'pos, 'brd) event list"
  handled :: "string list"

text \<open>
  Line 155, \<^verbatim>\<open>self.status_line_color, self.status_line = ...\<close>: two attribute
  stores, the color first.
\<close>

definition store_color :: "string \<Rightarrow> 'a thread_scheme \<Rightarrow> 'a thread_scheme" where
  "store_color c t = t\<lparr>status_line_color := c\<rparr>"

definition store_text :: "string \<Rightarrow> 'a thread_scheme \<Rightarrow> 'a thread_scheme" where
  "store_text l t = t\<lparr>status_line := l\<rparr>"

definition publish :: "string \<times> string \<Rightarrow> 'a thread_scheme \<Rightarrow> 'a thread_scheme" where
  "publish S t = store_text (snd S) (store_color (fst S) t)"

text \<open>Lines 154 and 155.  An exception leaves \<^verbatim>\<open>run\<close>: the thread ends.\<close>

definition refresh ::
  "('g, 'img, 'pos, 'brd) collaborators \<Rightarrow> ('g, 'img, 'pos, 'brd) worker \<Rightarrow> ('g, 'img, 'pos, 'brd) worker" where
  "refresh C w =
     (if crashed w \<noteq> None then w
      else if status_line_stale w then
        (case make_statusline C (game w) of
           (Inl e, g') \<Rightarrow> w\<lparr>game := g', crashed := Some e\<rparr>
         | (Inr S, g') \<Rightarrow> publish S (w\<lparr>game := g'\<rparr>))
      else w)"

text \<open>Line 158.\<close>

definition poll ::
  "('g, 'img, 'pos, 'brd) collaborators \<Rightarrow> ('g, 'img, 'pos, 'brd) worker \<Rightarrow> ('g, 'img, 'pos, 'brd) worker" where
  "poll C w =
     (if crashed w \<noteq> None then w
      else (case arduino_update C (game w) of
              (r, g') \<Rightarrow> w\<lparr>game := g', crashed := map_option Failure r\<rparr>))"

text \<open>
  Lines 159 and 160, one turn of the inner loop: the test, \<^verbatim>\<open>popleft()\<close> and the call
  of \<^verbatim>\<open>execute_command\<close>.
\<close>

definition pop_step ::
  "('g, 'img, 'pos, 'brd) collaborators \<Rightarrow> ('g, 'img, 'pos, 'brd) worker \<Rightarrow> ('g, 'img, 'pos, 'brd) worker" where
  "pop_step C w =
     (if crashed w \<noteq> None then w
      else
        (case commands w of
           [] \<Rightarrow> w
         | command # rest \<Rightarrow>
             (case execute_command C command (game w) of
                (evs, out, g') \<Rightarrow>
                  w\<lparr>commands := rest, game := g',
                    crashed := (case out of Returned \<Rightarrow> None | Raised e \<Rightarrow> Some e),
                    events := events w @ evs, handled := handled w @ [command]\<rparr>)))"

text \<open>Lines 159 and 160, the whole inner loop with no submission in between.\<close>

function drain ::
  "('g, 'img, 'pos, 'brd) collaborators \<Rightarrow> ('g, 'img, 'pos, 'brd) worker \<Rightarrow> ('g, 'img, 'pos, 'brd) worker" where
  "drain C w = (if crashed w = None \<and> commands w \<noteq> [] then drain C (pop_step C w) else w)"
  by pat_completeness auto
termination
  by (relation "measure (\<lambda>(C, w). length (commands w))")
    (auto simp: pop_step_def split: list.splits prod.splits)

declare drain.simps [simp del]

text \<open>Lines 152 to 160: the body of \<^verbatim>\<open>while True\<close>.\<close>

definition run_iteration ::
  "('g, 'img, 'pos, 'brd) collaborators \<Rightarrow> ('g, 'img, 'pos, 'brd) worker \<Rightarrow> ('g, 'img, 'pos, 'brd) worker" where
  "run_iteration C w = drain C (poll C (refresh C w))"

text \<open>
  The worker when the loop is entered (lines 120 to 122, 132 and 147 to 150): the class
  attributes, an empty deque, and the collaborators after the first
  \<^verbatim>\<open>arduino.update()\<close>.
\<close>

definition start ::
  "('g, 'img, 'pos, 'brd) collaborators \<Rightarrow> 'g \<Rightarrow> ('g, 'img, 'pos, 'brd) worker" where
  "start C g =
     (case arduino_update C g of
        (r, g') \<Rightarrow>
          thread.extend initial_thread
            (worker.fields g' (map_option Failure r) [] []))"


section \<open>Schedules of the two threads\<close>

text \<open>
  The foreground and the worker run concurrently.  A schedule is a list of atomic actions
  in the order in which they take effect: the three foreground calls, and the three kinds
  of step of the worker's loop.  Every schedule of the program is such a list.
\<close>

datatype action =
    GetStatusLine
  | GetStatusLineColor
  | Enqueue string
  | Refresh
  | Poll
  | Pop

fun step ::
  "('g, 'img, 'pos, 'brd) collaborators \<Rightarrow> action \<Rightarrow> ('g, 'img, 'pos, 'brd) worker \<Rightarrow> ('g, 'img, 'pos, 'brd) worker" where
  "step C GetStatusLine w = snd (get_status_line w)"
| "step C GetStatusLineColor w = snd (get_status_line_color w)"
| "step C (Enqueue command) w = enqueue command w"
| "step C Refresh w = refresh C w"
| "step C Poll w = poll C w"
| "step C Pop w = pop_step C w"

fun exec ::
  "('g, 'img, 'pos, 'brd) collaborators \<Rightarrow> action list \<Rightarrow> ('g, 'img, 'pos, 'brd) worker \<Rightarrow> ('g, 'img, 'pos, 'brd) worker" where
  "exec C [] w = w"
| "exec C (a # as) w = exec C as (step C a w)"

text \<open>The commands submitted by a schedule, in submission order.\<close>

fun submitted :: "action list \<Rightarrow> string list" where
  "submitted [] = []"
| "submitted (Enqueue command # as) = command # submitted as"
| "submitted (a # as) = submitted as"

text \<open>The snapshot a reader gets from the two getters: color tag and text.\<close>

definition snapshot :: "'a thread_scheme \<Rightarrow> string \<times> string" where
  "snapshot t = (fst (get_status_line_color t), fst (get_status_line t))"

section \<open>Collaborators for the examples\<close>

text \<open>
  A controller that never raises, in state \<open>READY\<close>, with two buttons and one palette; its
  state counts the calls of \<^verbatim>\<open>arduino.update()\<close>.  Images, positions and boards are
  numbers.  The variants fail in the camera, in the detector or in the board generator.
\<close>

definition stub :: "(nat, nat, nat, nat) collaborators" where
  "stub =
     \<lparr> arduino_update = (\<lambda>g. (None, Suc g)),
       game_state = (\<lambda>g. READY),
       gantry_pos = (\<lambda>g. ''(0, 0)''),
       electromagnet_enabled = (\<lambda>g. False),
       move_to_square = (\<lambda>sq g. (None, g)),
       set_electromagnet = (\<lambda>b g. (None, g)),
       Button = [''COMPUTER'', ''START''],
       set_button_light = (\<lambda>n b g. (None, g)),
       LEDPallete = [''FULL_WHITE''],
       set_led_pallete = (\<lambda>n g. (None, g)),
       set_autoplay = (\<lambda>b g. (None, g)),
       get_image = (\<lambda>g. (Inr 7, g)),
       detect_piece_positions = (\<lambda>img g. ([(8, ''Detected'')], Inr 1, g)),
       generate_board = (\<lambda>p g. (Inr 2, g)),
       transform = (\<lambda>f b. (case f of flip_horizontal \<Rightarrow> b + 10 | flip_vertical \<Rightarrow> b + 100)) \<rparr>"

definition stub_no_camera :: "(nat, nat, nat, nat) collaborators" where
  "stub_no_camera = stub\<lparr>get_image := (\<lambda>g. (Inl ''no camera'', g))\<rparr>"

definition stub_no_detection :: "(nat, nat, nat, nat) collaborators" where
  "stub_no_detection =
     stub\<lparr>detect_piece_positions := (\<lambda>img g. ([], Inl ''no board found'', g))\<rparr>"

definition stub_no_board :: "(nat, nat, nat, nat) collaborators" where
  "stub_no_board = stub\<lparr>generate_board := (\<lambda>p g. (Inl ''bad positions'', g))\<rparr>"


section \<open>Facts about the steps of the worker\<close>

lemma publish_fields:
  "status_line (publish S t) = snd S"
  "status_line_color (publish S t) = fst S"
  "status_line_stale (publish S t) = status_line_stale t"
  "commands (publish S t) = commands t"
  by (simp_all add: publish_def store_text_def store_color_def)

lemma refresh_stale: "status_line_stale (refresh C w) = status_line_stale w"
  by (auto simp: refresh_def publish_fields split: prod.splits sum.splits)

lemma poll_thread:
  "status_line (poll C w) = status_line w"
  "status_line_color (poll C w) = status_line_color w"
  "status_line_stale (poll C w) = status_line_stale w"
  "commands (poll C w) = commands w"
  "handled (poll C w) = handled w"
  by (auto simp: poll_def split: prod.splits)

lemma pop_step_thread:
  "status_line (pop_step C w) = status_line w"
  "status_line_color (pop_step C w) = status_line_color w"
  "status_line_stale (pop_step C w) = status_line_stale w"
  by (auto simp: pop_step_def split: prod.splits list.splits)

lemma step_keeps_snapshot:
  "a \<noteq> Refresh \<Longrightarrow>
     status_line (step C a w) = status_line w \<and>
     status_line_color (step C a w) = status_line_color w"
  by (cases a)
    (simp_all add: get_status_line_def get_status_line_color_def enqueue_def poll_thread
      pop_step_thread)

lemma exec_keeps_snapshot:
  "Refresh \<notin> set acts \<Longrightarrow>
     status_line (exec C acts w) = status_line w \<and>
     status_line_color (exec C acts w) = status_line_color w"
proof (induction acts arbitrary: w)
  case Nil
  then show ?case by simp
next
  case (Cons a acts)
  then show ?case using step_keeps_snapshot [of a C w] by auto
qed

lemma stub_simps:
  "arduino_update stub = (\<lambda>g. (None, Suc g))"
  "game_state stub = (\<lambda>g. READY)"
  "gantry_pos stub = (\<lambda>g. ''(0, 0)'')"
  "electromagnet_enabled stub = (\<lambda>g. False)"
  "move_to_square stub = (\<lambda>sq g. (None, g))"
  "set_electromagnet stub = (\<lambda>b g. (None, g))"
  "Button stub = [''COMPUTER'', ''START'']"
  "set_button_light stub = (\<lambda>n b g. (None, g))"
  "LEDPallete stub = [''FULL_WHITE'']"
  "set_led_pallete stub = (\<lambda>n g. (None, g))"
  "set_autoplay stub = (\<lambda>b g. (None, g))"
  "get_image stub = (\<lambda>g. (Inr 7, g))"
  "detect_piece_positions stub = (\<lambda>img g. ([(8, ''Detected'')], Inr 1, g))"
  "generate_board stub = (\<lambda>p g. (Inr 2, g))"
  by (simp_all add: stub_def)

lemmas string_ev =
  parse_command_def tokens_def strip_def lower_def lower_char_def upper_def upper_char_def
  is_space_def char_of_eq_iff

lemmas square_ev = parse_square_def square_name_def SQUARE_NAMES_def FILE_NAMES_def RANK_NAMES_def

lemmas start_ev = start_def initial_thread_def thread.extend_def worker.fields_def

section \<open>The display cache\<close>

text \<open>
  Claim C8.  \<^verbatim>\<open>get_status_line\<close> sets the staleness flag to true and changes nothing
  else of the object; \<^verbatim>\<open>get_status_line_color\<close> leaves the whole object as it was,
  the staleness flag included.
\<close>

theorem read_marks_stale_color_read_changes_nothing:
  "status_line_stale (snd (get_status_line t)) = True \<and>
   snd (get_status_line t) = t\<lparr>status_line_stale := True\<rparr> \<and>
   snd (get_status_line_color t) = t \<and>
   status_line_stale (snd (get_status_line_color t)) = status_line_stale t"
  by (simp add: get_status_line_def get_status_line_color_def)

text \<open>
  Claim C4.  Once the worker has stored the snapshot \<open>S\<close>, whatever the two threads do
  next short of another refresh of the worker (reads of either getter, submissions, polls
  and executions of commands, in any number and order), the color getter returns the
  color tag of \<open>S\<close> and the text getter returns the text of \<open>S\<close>.
\<close>

theorem reads_return_published_snapshot:
  "Refresh \<notin> set acts \<Longrightarrow>
     fst (get_status_line_color (exec C acts (publish S w))) = fst S \<and>
     fst (get_status_line (exec C acts (publish S w))) = snd S"
  using exec_keeps_snapshot [of acts C "publish S w"]
  by (simp add: get_status_line_def get_status_line_color_def publish_fields)

theorem reads_return_published_snapshot_witness:
  "Refresh \<notin> set [GetStatusLine, Enqueue ''move e4'', Poll, Pop, GetStatusLineColor] \<and>
   fst (get_status_line_color
          (exec stub [GetStatusLine, Enqueue ''move e4'', Poll, Pop, GetStatusLineColor]
             (publish (''bg:ansired'', ''State: ERROR'') (start stub 0)))) = ''bg:ansired'' \<and>
   fst (get_status_line
          (exec stub [GetStatusLine, Enqueue ''move e4'', Poll, Pop, GetStatusLineColor]
             (publish (''bg:ansired'', ''State: ERROR'') (start stub 0)))) = ''State: ERROR''"
  using reads_return_published_snapshot
    [of "[GetStatusLine, Enqueue ''move e4'', Poll, Pop, GetStatusLineColor]" stub
        "(''bg:ansired'', ''State: ERROR'')" "start stub 0"]
  by simp

text \<open>
  Claim C2, evaluated on the worker as it enters its loop.  The staleness flag is true, the
  first refresh computes and stores a new snapshot, and the flag is still true after that
  store and at the end of the loop body: no statement of \<^verbatim>\<open>run\<close> assigns it.
\<close>

theorem stale_flag_still_set_after_publish:
  "status_line_stale (start stub 0) \<and>
   snapshot (refresh stub (start stub 0)) =
     (''bg:ansigreen'', ''State: READY / Gantry: (0, 0) / Magnet: OFF'') \<and>
   status_line_stale (refresh stub (start stub 0)) \<and>
   status_line_stale (run_iteration stub (start stub 0))"
  by (simp add: snapshot_def get_status_line_def get_status_line_color_def refresh_def start_ev
      make_statusline_def stub_simps statusline_color_def dict_get_def
      GAME_STATE_STATUSLINE_COLORS_def on_off_def publish_def store_color_def store_text_def
      run_iteration_def poll_def drain.simps)

text \<open>
  Claim C7.  The color lookup of \<^verbatim>\<open>make_statusline\<close> has a value for every state: the
  five states of the table get their own color, every other state gets the default
  \<^verbatim>\<open>'ansiblack bg:ansiwhite'\<close>, and this is the color \<^verbatim>\<open>make_statusline\<close> returns
  whenever its \<^verbatim>\<open>arduino.update()\<close> does not raise.
\<close>

theorem statusline_color_total:
  "statusline_color STARTING = ''ansiblack bg:ansigray'' \<and>
   statusline_color READY = ''bg:ansigreen'' \<and>
   statusline_color HUMAN_TURN = ''bg:#FF69B4'' \<and>
   statusline_color COMPUTER_TURN = ''ansiblack bg:#66AAFF'' \<and>
   statusline_color ERROR = ''bg:ansired'' \<and>
   statusline_color (OTHER n) = ''ansiblack bg:ansiwhite'' \<and>
   (map_of GAME_STATE_STATUSLINE_COLORS st = Some c \<longrightarrow> statusline_color st = c) \<and>
   (map_of GAME_STATE_STATUSLINE_COLORS st = None \<longrightarrow>
      statusline_color st = ''ansiblack bg:ansiwhite'') \<and>
   (arduino_update C g = (None, g') \<longrightarrow>
      (\<exists>text. make_statusline C g = (Inr (statusline_color (game_state C g'), text), g')))"
  by (simp add: statusline_color_def dict_get_def GAME_STATE_STATUSLINE_COLORS_def
      make_statusline_def Let_def)

theorem statusline_color_total_witness:
  "map_of GAME_STATE_STATUSLINE_COLORS HUMAN_TURN = Some ''bg:#FF69B4'' \<and>
   statusline_color HUMAN_TURN = ''bg:#FF69B4'' \<and>
   map_of GAME_STATE_STATUSLINE_COLORS (OTHER ''PAUSED'') = None \<and>
   statusline_color (OTHER ''PAUSED'') = ''ansiblack bg:ansiwhite'' \<and>
   arduino_update stub 0 = (None, 1) \<and>
   (\<exists>text. make_statusline stub 0 = (Inr (statusline_color (game_state stub 1), text), 1))"
proof -
  have a: "map_of GAME_STATE_STATUSLINE_COLORS HUMAN_TURN = Some ''bg:#FF69B4''"
    by (simp add: GAME_STATE_STATUSLINE_COLORS_def)
  have b: "map_of GAME_STATE_STATUSLINE_COLORS (OTHER ''PAUSED'') = None"
    by (simp add: GAME_STATE_STATUSLINE_COLORS_def)
  have c: "arduino_update stub 0 = (None, 1)"
    by (simp add: stub_simps)
  show ?thesis
    using a b c
      statusline_color_total [of _ HUMAN_TURN "''bg:#FF69B4''" stub 0 1]
      statusline_color_total [of "''PAUSED''" "OTHER ''PAUSED''" _ stub 0 1]
    by simp
qed

section \<open>The command interpreter\<close>

lemmas cmd_defs =
  execute_command_def cmd_move_def cmd_magnet_def cmd_bled_def cmd_leds_def cmd_autoplay_def
  cmd_camshow_def args_item_def enum_getitem_def

lemma outcome_of_Returned: "outcome_of r = Returned \<longleftrightarrow> r = None"
  by (cases r) simp_all

lemma cmd_camshow_returns: "fst (snd (cmd_camshow C g)) = Returned"
  by (simp add: cmd_camshow_def Let_def split: prod.splits sum.splits)

lemma cmd_move_returns:
  "fst (snd (cmd_move C args g)) = Returned \<longleftrightarrow>
     (\<exists>a rest sq. args = a # rest \<and> parse_square a = Inr sq \<and>
        fst (move_to_square C sq g) = None)"
  by (cases args)
    (auto simp: cmd_move_def args_item_def outcome_of_Returned split: sum.splits prod.splits)

lemma cmd_magnet_returns:
  "fst (snd (cmd_magnet C args g)) = Returned \<longleftrightarrow>
     (\<exists>a rest. args = a # rest \<and> fst (set_electromagnet C (a = ''on'') g) = None)"
  by (cases args)
    (auto simp: cmd_magnet_def args_item_def outcome_of_Returned Let_def
      split: sum.splits prod.splits)

lemma cmd_autoplay_returns:
  "fst (snd (cmd_autoplay C args g)) = Returned \<longleftrightarrow>
     (\<exists>a rest. args = a # rest \<and> fst (set_autoplay C (a = ''on'') g) = None)"
  by (cases args)
    (auto simp: cmd_autoplay_def args_item_def outcome_of_Returned Let_def
      split: sum.splits prod.splits)

lemma cmd_leds_returns:
  "fst (snd (cmd_leds C args g)) = Returned \<longleftrightarrow>
     (\<exists>a rest. args = a # rest \<and> upper a \<in> set (LEDPallete C) \<and>
        fst (set_led_pallete C (upper a) g) = None)"
  by (cases args)
    (auto simp: cmd_leds_def args_item_def enum_getitem_def outcome_of_Returned
      split: sum.splits prod.splits)

lemma cmd_bled_returns:
  "fst (snd (cmd_bled C args g)) = Returned \<longleftrightarrow>
     (\<exists>a0 a1 rest. args = a0 # a1 # rest \<and> upper a0 \<in> set (Button C) \<and>
        fst (set_button_light C (upper a0) (a1 = ''on'') g) = None)"
proof (cases args)
  case Nil
  then show ?thesis by (simp add: cmd_bled_def args_item_def)
next
  case (Cons a0 as)
  then show ?thesis
    by (cases as)
      (auto simp: cmd_bled_def args_item_def enum_getitem_def outcome_of_Returned Let_def
        split: sum.splits prod.splits)
qed

lemma execute_command_returns_iff:
  "parse_command command = (cmd, args) \<Longrightarrow>
   (fst (snd (execute_command C command g)) = Returned \<longleftrightarrow>
     (if cmd = ''move'' then
        (\<exists>a rest sq. args = a # rest \<and> parse_square a = Inr sq \<and>
           fst (move_to_square C sq g) = None)
      else if cmd = ''magnet'' then
        (\<exists>a rest. args = a # rest \<and> fst (set_electromagnet C (a = ''on'') g) = None)
      else if cmd = ''bled'' then
        (\<exists>a0 a1 rest. args = a0 # a1 # rest \<and> upper a0 \<in> set (Button C) \<and>
           fst (set_button_light C (upper a0) (a1 = ''on'') g) = None)
      else if cmd = ''leds'' then
        (\<exists>a rest. args = a # rest \<and> upper a \<in> set (LEDPallete C) \<and>
           fst (set_led_pallete C (upper a) g) = None)
      else if cmd = ''autoplay'' then
        (\<exists>a rest. args = a # rest \<and> fst (set_autoplay C (a = ''on'') g) = None)
      else cmd \<noteq> ''exit''))"
  by (simp add: execute_command_def cmd_move_returns cmd_magnet_returns cmd_bled_returns
      cmd_leds_returns cmd_autoplay_returns cmd_camshow_returns)

lemma parse_square_error: "parse_square a = Inl e \<Longrightarrow> e = ValueError"
  by (auto simp: parse_square_def split: option.splits)

lemma pop_step_crash:
  "crashed w = None \<Longrightarrow> commands w = command # rest \<Longrightarrow>
   fst (snd (execute_command C command (game w))) = Raised e \<Longrightarrow>
   crashed (pop_step C w) = Some e \<and> commands (pop_step C w) = rest"
  by (auto simp: pop_step_def split: prod.splits)

lemma dead_step:
  "crashed w \<noteq> None \<Longrightarrow> pop_step C w = w \<and> refresh C w = w \<and> poll C w = w"
  by (auto simp: refresh_def poll_def pop_step_def)

text \<open>
  Claim C1, as the code has it.  \<^verbatim>\<open>execute_command\<close> has no handler around its
  branches.  It returns normally exactly when the head is unknown (the command is
  reported), when the head is \<open>camshow\<close> (whose own handlers report the failures of the
  fetch and of the detection), or when the argument of one of the five other commands is
  present and valid and the controller's call does not raise.  An invalid square name
  raises \<^verbatim>\<open>ValueError\<close> and an unknown button name \<^verbatim>\<open>KeyError\<close>, before anything is
  printed or called.  An exception of \<^verbatim>\<open>execute_command\<close> is not caught by the worker
  loop either: it ends \<^verbatim>\<open>run\<close>, and no later step of the worker does anything.
\<close>

theorem execute_command_raises_to_caller:
  "parse_command command = (cmd, args) \<Longrightarrow>
   (fst (snd (execute_command C command g)) = Returned \<longleftrightarrow>
     (if cmd = ''move'' then
        (\<exists>a rest sq. args = a # rest \<and> parse_square a = Inr sq \<and>
           fst (move_to_square C sq g) = None)
      else if cmd = ''magnet'' then
        (\<exists>a rest. args = a # rest \<and> fst (set_electromagnet C (a = ''on'') g) = None)
      else if cmd = ''bled'' then
        (\<exists>a0 a1 rest. args = a0 # a1 # rest \<and> upper a0 \<in> set (Button C) \<and>
           fst (set_button_light C (upper a0) (a1 = ''on'') g) = None)
      else if cmd = ''leds'' then
        (\<exists>a rest. args = a # rest \<and> upper a \<in> set (LEDPallete C) \<and>
           fst (set_led_pallete C (upper a) g) = None)
      else if cmd = ''autoplay'' then
        (\<exists>a rest. args = a # rest \<and> fst (set_autoplay C (a = ''on'') g) = None)
      else cmd \<noteq> ''exit'')) \<and>
   (cmd = ''move'' \<and> args = a # rest \<and> parse_square a = Inl e \<longrightarrow>
      execute_command C command g = ([], Raised ValueError, g)) \<and>
   (cmd = ''bled'' \<and> args = a # b # rest \<and> upper a \<notin> set (Button C) \<longrightarrow>
      execute_command C command g = ([], Raised (KeyError (upper a)), g)) \<and>
   (crashed w = None \<and> commands w = command # queue \<and> game w = g \<and>
    fst (snd (execute_command C command g)) = Raised e' \<longrightarrow>
      crashed (pop_step C w) = Some e' \<and>
      step C Pop (pop_step C w) = pop_step C w \<and>
      step C Refresh (pop_step C w) = pop_step C w \<and>
      step C Poll (pop_step C w) = pop_step C w)"
proof -
  assume p: "parse_command command = (cmd, args)"
  have 1: "cmd = ''move'' \<and> args = a # rest \<and> parse_square a = Inl e \<longrightarrow>
      execute_command C command g = ([], Raised ValueError, g)"
    using p parse_square_error [of a e]
    by (auto simp: execute_command_def cmd_move_def args_item_def)
  have 2: "cmd = ''bled'' \<and> args = a # b # rest \<and> upper a \<notin> set (Button C) \<longrightarrow>
      execute_command C command g = ([], Raised (KeyError (upper a)), g)"
    using p by (auto simp: execute_command_def cmd_bled_def args_item_def enum_getitem_def)
  have 3: "crashed w = None \<and> commands w = command # queue \<and> game w = g \<and>
    fst (snd (execute_command C command g)) = Raised e' \<longrightarrow>
      crashed (pop_step C w) = Some e' \<and>
      step C Pop (pop_step C w) = pop_step C w \<and>
      step C Refresh (pop_step C w) = pop_step C w \<and>
      step C Poll (pop_step C w) = pop_step C w"
  proof
    assume h: "crashed w = None \<and> commands w = command # queue \<and> game w = g \<and>
      fst (snd (execute_command C command g)) = Raised e'"
    then have c: "crashed (pop_step C w) = Some e'"
      using pop_step_crash [of w command queue C e'] by simp
    then have "crashed (pop_step C w) \<noteq> None" by simp
    then show "crashed (pop_step C w) = Some e' \<and>
      step C Pop (pop_step C w) = pop_step C w \<and>
      step C Refresh (pop_step C w) = pop_step C w \<and>
      step C Poll (pop_step C w) = pop_step C w"
      using c dead_step [of "pop_step C w" C] by simp
  qed
  show ?thesis
    using execute_command_returns_iff [OF p, of C g] 1 2 3 by blast
qed

theorem execute_command_raises_to_caller_witness:
  "parse_command ''Move E4'' = (''move'', [''e4'']) \<and>
   fst (snd (execute_command stub ''Move E4'' 0)) = Returned \<and>
   parse_command ''move zz'' = (''move'', [''zz'']) \<and>
   parse_square ''zz'' = Inl ValueError \<and>
   execute_command stub ''move zz'' 0 = ([], Raised ValueError, 0) \<and>
   parse_command ''bled king on'' = (''bled'', [''king'', ''on'']) \<and>
   upper ''king'' \<notin> set (Button stub) \<and>
   execute_command stub ''bled king on'' 0 = ([], Raised (KeyError ''KING''), 0) \<and>
   crashed (pop_step stub (enqueue ''move zz'' (start stub 0))) = Some ValueError"
proof -
  have p1: "parse_command ''Move E4'' = (''move'', [''e4''])" by (simp add: string_ev)
  have p2: "parse_command ''move zz'' = (''move'', [''zz''])" by (simp add: string_ev)
  have p3: "parse_command ''bled king on'' = (''bled'', [''king'', ''on''])"
    by (simp add: string_ev)
  have s1: "parse_square ''e4'' = Inr 28" by (simp add: square_ev)
  have s2: "parse_square ''zz'' = Inl ValueError" by (simp add: square_ev)
  have u: "upper ''king'' = ''KING''" by (simp add: string_ev)
  let ?w = "enqueue ''move zz'' (start stub 0)"
  have w: "crashed ?w = None" "commands ?w = [''move zz'']" "game ?w = 1"
    by (simp_all add: enqueue_def start_ev stub_simps)
  have a: "fst (snd (execute_command stub ''Move E4'' 0)) = Returned"
    using execute_command_raises_to_caller [OF p1, where C = stub and g = 0] s1
    by (simp add: stub_simps)
  have b: "execute_command stub ''move zz'' g = ([], Raised ValueError, g)" for g
    using execute_command_raises_to_caller
      [OF p2, where C = stub and g = g and a = "''zz''" and rest = "[]" and e = ValueError] s2
    by simp
  have c: "execute_command stub ''bled king on'' 0 = ([], Raised (KeyError ''KING''), 0)"
    using execute_command_raises_to_caller
      [OF p3, where C = stub and g = 0 and a = "''king''" and b = "''on''" and rest = "[]"] u
    by (simp add: stub_simps)
  have d: "crashed (pop_step stub ?w) = Some ValueError"
    using execute_command_raises_to_caller
      [OF p2, where C = stub and g = 1 and w = ?w and queue = "[]" and e' = ValueError]
      w b [of 1]
    by simp
  show ?thesis using p1 p2 p3 s2 u a b [of 0] c d by (simp add: stub_simps)
qed

theorem execute_command_raises_counterexample:
  "fst (snd (execute_command stub ''move zz'' 0)) = Raised ValueError \<and>
   fst (snd (execute_command stub ''bled king on'' 0)) = Raised (KeyError ''KING'') \<and>
   crashed (run_iteration stub (enqueue ''move zz'' (start stub 0))) = Some ValueError"
  by (simp add: cmd_defs string_ev square_ev stub_simps pop_step_def enqueue_def start_ev
      run_iteration_def refresh_def poll_def make_statusline_def publish_def store_text_def
      store_color_def drain.simps)

lemma stub_variant_simps:
  "get_image stub_no_camera = (\<lambda>g. (Inl ''no camera'', g))"
  "get_image stub_no_detection = (\<lambda>g. (Inr 7, g))"
  "detect_piece_positions stub_no_detection =
     (\<lambda>img g. ([], Inl ''no board found'', g))"
  "get_image stub_no_board = (\<lambda>g. (Inr 7, g))"
  "detect_piece_positions stub_no_board = (\<lambda>img g. ([(8, ''Detected'')], Inr 1, g))"
  "generate_board stub_no_board = (\<lambda>p g. (Inl ''bad positions'', g))"
  by (simp_all add: stub_no_camera_def stub_no_detection_def stub_no_board_def stub_def)

text \<open>
  Claim C6.  For a command whose head is \<open>camshow\<close>: when \<^verbatim>\<open>get_image\<close> raises, the
  error is printed and the call returns, and no image is shown; when the fetch succeeds
  and \<^verbatim>\<open>detect_piece_positions\<close> or \<^verbatim>\<open>generate_board\<close> raises, the call shows the
  frame it fetched, as it is, under the title of the failure, prints the error and returns;
  when all three succeed, the board printed is the detected board transformed by
  \<^verbatim>\<open>flip_horizontal\<close> and then by \<^verbatim>\<open>flip_vertical\<close>.  The images that the detector
  itself displays through its callback are \<open>shown\<close>.
\<close>

theorem camshow_failures_and_flipped_board:
  "fst (parse_command command) = ''camshow'' \<Longrightarrow>
   (get_image C g = (Inl err, ga) \<longrightarrow>
      execute_command C command g =
        ([Print [''Fetching image...''], GetImage, PrintErr ''Failed to load image:'' (Failure err)],
         Returned, ga)) \<and>
   (get_image C g = (Inr img, ga) \<and>
    detect_piece_positions C img ga = (shown, Inl err, gb) \<longrightarrow>
      execute_command C command g =
        ([Print [''Fetching image...''], GetImage, Print [''Recognizing board...''],
          DetectPiecePositions img] @ map (\<lambda>(i, title). ShowImage i title) shown @
         [ShowImage img ''Failed to Detect Piece Positions:'',
          PrintErr ''Failed to detect piece positions:'' (Failure err)],
         Returned, gb)) \<and>
   (get_image C g = (Inr img, ga) \<and>
    detect_piece_positions C img ga = (shown, Inr positions, gb) \<and>
    generate_board C positions gb = (Inl err, gc) \<longrightarrow>
      execute_command C command g =
        ([Print [''Fetching image...''], GetImage, Print [''Recognizing board...''],
          DetectPiecePositions img] @ map (\<lambda>(i, title). ShowImage i title) shown @
         [GenerateBoard positions,
          ShowImage img ''Failed to Detect Piece Positions:'',
          PrintErr ''Failed to detect piece positions:'' (Failure err)],
         Returned, gc)) \<and>
   (get_image C g = (Inr img, ga) \<and>
    detect_piece_positions C img ga = (shown, Inr positions, gb) \<and>
    generate_board C positions gb = (Inr board, gc) \<longrightarrow>
      execute_command C command g =
        ([Print [''Fetching image...''], GetImage, Print [''Recognizing board...''],
          DetectPiecePositions img] @ map (\<lambda>(i, title). ShowImage i title) shown @
         [GenerateBoard positions,
          Print [''Board (computer perspective):''],
          PrintBoard (transform C flip_vertical (transform C flip_horizontal board))],
         Returned, gc))"
  by (cases "parse_command command") (simp add: execute_command_def cmd_camshow_def)

theorem camshow_failures_and_flipped_board_witness:
  "fst (parse_command ''camshow'') = ''camshow'' \<and>
   get_image stub_no_camera 0 = (Inl ''no camera'', 0) \<and>
   execute_command stub_no_camera ''camshow'' 0 =
     ([Print [''Fetching image...''], GetImage,
       PrintErr ''Failed to load image:'' (Failure ''no camera'')],
      Returned, 0) \<and>
   get_image stub_no_detection 0 = (Inr 7, 0) \<and>
   detect_piece_positions stub_no_detection 7 0 = ([], Inl ''no board found'', 0) \<and>
   execute_command stub_no_detection ''camshow'' 0 =
     ([Print [''Fetching image...''], GetImage, Print [''Recognizing board...''],
       DetectPiecePositions 7, ShowImage 7 ''Failed to Detect Piece Positions:'',
       PrintErr ''Failed to detect piece positions:'' (Failure ''no board found'')],
      Returned, 0) \<and>
   generate_board stub_no_board 1 0 = (Inl ''bad positions'', 0) \<and>
   execute_command stub_no_board ''camshow'' 0 =
     ([Print [''Fetching image...''], GetImage, Print [''Recognizing board...''],
       DetectPiecePositions 7, ShowImage 8 ''Detected'', GenerateBoard 1,
       ShowImage 7 ''Failed to Detect Piece Positions:'',
       PrintErr ''Failed to detect piece positions:'' (Failure ''bad positions'')],
      Returned, 0) \<and>
   generate_board stub 1 0 = (Inr 2, 0) \<and>
   execute_command stub ''camshow'' 0 =
     ([Print [''Fetching image...''], GetImage, Print [''Recognizing board...''],
       DetectPiecePositions 7, ShowImage 8 ''Detected'', GenerateBoard 1,
       Print [''Board (computer perspective):''],
       PrintBoard (transform stub flip_vertical (transform stub flip_horizontal 2))],
      Returned, 0)"
proof -
  have p: "fst (parse_command ''camshow'') = ''camshow''" by (simp add: string_ev)
  have a: "get_image stub_no_camera 0 = (Inl ''no camera'', 0)"
    by (simp add: stub_variant_simps)
  have b: "get_image stub_no_detection 0 = (Inr 7, 0)"
    "detect_piece_positions stub_no_detection 7 0 = ([], Inl ''no board found'', 0)"
    by (simp_all add: stub_variant_simps)
  have c: "get_image stub_no_board 0 = (Inr 7, 0)"
    "detect_piece_positions stub_no_board 7 0 = ([(8, ''Detected'')], Inr 1, 0)"
    "generate_board stub_no_board 1 0 = (Inl ''bad positions'', 0)"
    by (simp_all add: stub_variant_simps)
  have d: "get_image stub 0 = (Inr 7, 0)"
    "detect_piece_positions stub 7 0 = ([(8, ''Detected'')], Inr 1, 0)"
    "generate_board stub 1 0 = (Inr 2, 0)"
    by (simp_all add: stub_simps)
  have r1: "execute_command stub_no_camera ''camshow'' 0 =
     ([Print [''Fetching image...''], GetImage,
       PrintErr ''Failed to load image:'' (Failure ''no camera'')],
      Returned, 0)"
    using camshow_failures_and_flipped_board
      [OF p, where C = stub_no_camera and g = 0 and ga = 0 and err = "''no camera''"] a
    by simp
  have r2: "execute_command stub_no_detection ''camshow'' 0 =
     ([Print [''Fetching image...''], GetImage, Print [''Recognizing board...''],
       DetectPiecePositions 7, ShowImage 7 ''Failed to Detect Piece Positions:'',
       PrintErr ''Failed to detect piece positions:'' (Failure ''no board found'')],
      Returned, 0)"
    using camshow_failures_and_flipped_board
      [OF p, where C = stub_no_detection and g = 0 and ga = 0 and gb = 0 and img = 7
         and shown = "[]" and err = "''no board found''"] b
    by simp
  have r3: "execute_command stub_no_board ''camshow'' 0 =
     ([Print [''Fetching image...''], GetImage, Print [''Recognizing board...''],
       DetectPiecePositions 7, ShowImage 8 ''Detected'', GenerateBoard 1,
       ShowImage 7 ''Failed to Detect Piece Positions:'',
       PrintErr ''Failed to detect piece positions:'' (Failure ''bad positions'')],
      Returned, 0)"
    using camshow_failures_and_flipped_board
      [OF p, where C = stub_no_board and g = 0 and ga = 0 and gb = 0 and gc = 0 and img = 7
         and shown = "[(8, ''Detected'')]" and positions = 1
         and err = "''bad positions''"] c
    by simp
  have r4: "execute_command stub ''camshow'' 0 =
     ([Print [''Fetching image...''], GetImage, Print [''Recognizing board...''],
       DetectPiecePositions 7, ShowImage 8 ''Detected'', GenerateBoard 1,
       Print [''Board (computer perspective):''],
       PrintBoard (transform stub flip_vertical (transform stub flip_horizontal 2))],
      Returned, 0)"
    using camshow_failures_and_flipped_board
      [OF p, where C = stub and g = 0 and ga = 0 and gb = 0 and gc = 0 and img = 7
         and shown = "[(8, ''Detected'')]" and positions = 1 and board = 2] d
    by simp
  show ?thesis using p a b c(3) d(3) r1 r2 r3 r4 by simp
qed

text \<open>
  Claim C10.  When the first argument of \<open>magnet\<close> or \<open>autoplay\<close> is any token other than
  \<open>on\<close>, the command runs as \<open>off\<close>: \<open>magnet\<close> prints \<^verbatim>\<open>Turning magnet OFF\<close> and calls
  \<^verbatim>\<open>set_electromagnet(False)\<close>, \<open>autoplay\<close> calls \<^verbatim>\<open>set_autoplay(False)\<close>, and the
  interpreter reports nothing about the argument: the call ends as the setter ends.
\<close>

theorem magnet_autoplay_other_argument_is_off:
  "parse_command command = (cmd, a # rest) \<Longrightarrow> a \<noteq> ''on'' \<Longrightarrow>
   (cmd = ''magnet'' \<longrightarrow>
      execute_command C command g =
        ([Print [''Turning magnet'', ''OFF''], SetElectromagnet False],
         outcome_of (fst (set_electromagnet C False g)), snd (set_electromagnet C False g))) \<and>
   (cmd = ''autoplay'' \<longrightarrow>
      execute_command C command g =
        ([SetAutoplay False],
         outcome_of (fst (set_autoplay C False g)), snd (set_autoplay C False g)))"
  by (auto simp: execute_command_def cmd_magnet_def cmd_autoplay_def args_item_def on_off_def
      split: prod.splits)

theorem magnet_autoplay_other_argument_is_off_witness:
  "parse_command ''magnet maybe'' = (''magnet'', [''maybe'']) \<and> ''maybe'' \<noteq> ''on'' \<and>
   execute_command stub ''magnet maybe'' 0 =
     ([Print [''Turning magnet'', ''OFF''], SetElectromagnet False], Returned, 0) \<and>
   parse_command '' AutoPlay Off now'' = (''autoplay'', [''off'', ''now'']) \<and>
   ''off'' \<noteq> ''on'' \<and>
   execute_command stub '' AutoPlay Off now'' 0 = ([SetAutoplay False], Returned, 0)"
proof -
  have a: "parse_command ''magnet maybe'' = (''magnet'', [''maybe''])"
    by (simp add: string_ev)
  have b: "parse_command '' AutoPlay Off now'' = (''autoplay'', [''off'', ''now''])"
    by (simp add: string_ev)
  have c: "''maybe'' \<noteq> ''on''" "''off'' \<noteq> ''on''" by simp_all
  show ?thesis
    using a b c
      magnet_autoplay_other_argument_is_off [OF a c(1), of stub 0]
      magnet_autoplay_other_argument_is_off [OF b c(2), of stub 0]
    by (simp add: stub_simps)
qed

section \<open>Parsing of the command line\<close>

lemma split_not_Nil: "split sep s \<noteq> []"
  by (induction s) (simp_all add: Let_def)

lemma join_Cons: "ts \<noteq> [] \<Longrightarrow> join sep (t # ts) = t @ sep @ join sep ts"
  by (cases ts) simp_all

lemma join_split: "join [sep] (split sep s) = s"
proof (induction s)
  case Nil
  then show ?case by simp
next
  case (Cons c cs)
  show ?case
  proof (cases "c = sep")
    case True
    then show ?thesis using Cons by (simp add: join_Cons split_not_Nil)
  next
    case False
    obtain t ts where r: "split sep cs = t # ts"
      using split_not_Nil [of sep cs] by (cases "split sep cs") auto
    have "join [sep] ((c # t) # ts) = c # join [sep] (t # ts)"
      by (cases ts) simp_all
    then show ?thesis using False Cons r by (simp add: Let_def)
  qed
qed

lemma split_no_sep: "t \<in> set (split sep s) \<Longrightarrow> sep \<notin> set t"
proof (induction s arbitrary: t)
  case Nil
  then show ?case by simp
next
  case (Cons c cs)
  obtain u us where r: "split sep cs = u # us"
    using split_not_Nil [of sep cs] by (cases "split sep cs") auto
  show ?case
  proof (cases "c = sep")
    case True
    then show ?thesis using Cons by auto
  next
    case False
    then have "t = c # u \<or> t \<in> set us" using Cons.prems r by (simp add: Let_def)
    then show ?thesis using False Cons.IH r by auto
  qed
qed

lemma length_split: "length (split sep s) = Suc (count_list s sep)"
proof (induction s)
  case Nil
  then show ?case by simp
next
  case (Cons c cs)
  obtain u us where r: "split sep cs = u # us"
    using split_not_Nil [of sep cs] by (cases "split sep cs") auto
  then show ?case using Cons by (simp add: Let_def)
qed

lemma lower_upper_char: "lower_char (upper_char c) = lower_char c"
  unfolding lower_char_def upper_char_def Let_def by (auto simp: mod_if)

lemma is_space_upper_char: "is_space (upper_char c) = is_space c"
  unfolding is_space_def upper_char_def Let_def by (auto simp: mod_if)

lemma lower_char_space: "lower_char c = CHR '' '' \<longleftrightarrow> c = CHR '' ''"
  unfolding lower_char_def Let_def by (cases c) (auto simp: char_of_eq_iff)

lemma count_list_lower: "count_list (lower s) (CHR '' '') = count_list s (CHR '' '')"
  by (induction s) (simp_all add: lower_def lower_char_space)

lemma strip_upper: "strip (upper s) = upper (strip s)"
proof -
  have c: "is_space \<circ> upper_char = is_space"
    by (rule ext) (simp add: is_space_upper_char)
  have d: "dropWhile is_space (map upper_char xs) = map upper_char (dropWhile is_space xs)"
    for xs
    by (simp add: dropWhile_map c)
  show ?thesis
    by (simp add: strip_def upper_def d rev_map)
qed

lemma lower_upper: "lower (upper s) = lower s"
  by (simp add: lower_def upper_def lower_upper_char)

lemma tokens_upper: "tokens (upper command) = tokens command"
  by (simp add: tokens_def strip_upper lower_upper)

lemma parse_command_upper: "parse_command (upper command) = parse_command command"
  by (simp add: parse_command_def tokens_upper)

lemma execute_command_known_head:
  "parse_command c1 = parse_command c2 \<Longrightarrow>
   fst (parse_command c1) \<in>
     {''move'', ''magnet'', ''bled'', ''leds'', ''autoplay'', ''camshow'', ''exit''} \<Longrightarrow>
   execute_command C c1 g = execute_command C c2 g"
  by (cases "parse_command c2") (auto simp: execute_command_def)

text \<open>
  Claim C5, as the code has it.  The line is stripped of leading and trailing whitespace,
  lowercased, and cut at every single space character: the head is the first piece and
  the arguments are the others.  The pieces joined by one space give the stripped,
  lowercased line back and no piece contains a space, so there is one piece more than
  there are spaces: two adjacent spaces enclose an empty piece, and a tab cuts nothing.
  Upper and lower case are parsed alike, and a command with one of the seven known
  heads runs alike in either case.
\<close>

theorem command_line_is_cut_at_each_space:
  "parse_command command = (hd (tokens command), tl (tokens command)) \<and>
   tokens command \<noteq> [] \<and>
   join '' '' (tokens command) = lower (strip command) \<and>
   (\<forall>t \<in> set (tokens command). CHR '' '' \<notin> set t) \<and>
   length (tokens command) = Suc (count_list (strip command) (CHR '' '')) \<and>
   parse_command (upper command) = parse_command command \<and>
   (fst (parse_command command) \<in>
      {''move'', ''magnet'', ''bled'', ''leds'', ''autoplay'', ''camshow'', ''exit''} \<longrightarrow>
    execute_command C (upper command) g = execute_command C command g)"
proof -
  have "tokens command \<noteq> []"
    by (simp add: tokens_def split_not_Nil)
  moreover have "join '' '' (tokens command) = lower (strip command)"
    unfolding tokens_def by (rule join_split)
  moreover have "\<forall>t \<in> set (tokens command). CHR '' '' \<notin> set t"
    unfolding tokens_def using split_no_sep by blast
  moreover have "length (tokens command) = Suc (count_list (strip command) (CHR '' ''))"
    by (simp add: tokens_def length_split count_list_lower)
  ultimately show ?thesis
    using execute_command_known_head [OF parse_command_upper, of command C g]
    by (simp add: parse_command_def tokens_upper)
qed

theorem command_line_is_cut_at_each_space_witness:
  "parse_command ''  Move  E4 '' = (''move'', ['''', ''e4'']) \<and>
   tokens ''  Move  E4 '' = [''move'', '''', ''e4''] \<and>
   join '' '' (tokens ''  Move  E4 '') = ''move  e4'' \<and>
   CHR '' '' \<notin> set ''move'' \<and> CHR '' '' \<notin> set ''e4'' \<and>
   length (tokens ''  Move  E4 '') = 3 \<and>
   parse_command (upper ''  Move  E4 '') = (''move'', ['''', ''e4'']) \<and>
   fst (parse_command ''Magnet On'') \<in>
      {''move'', ''magnet'', ''bled'', ''leds'', ''autoplay'', ''camshow'', ''exit''} \<and>
   execute_command stub (upper ''Magnet On'') 0 = execute_command stub ''Magnet On'' 0"
proof -
  have t: "tokens ''  Move  E4 '' = [''move'', '''', ''e4'']"
    by (simp add: string_ev)
  have s: "strip ''  Move  E4 '' = ''Move  E4''" "lower ''Move  E4'' = ''move  e4''"
    by (simp_all add: string_ev)
  have m: "fst (parse_command ''Magnet On'') = ''magnet''"
    by (simp add: string_ev)
  show ?thesis
    using t s m
      command_line_is_cut_at_each_space [of "''  Move  E4 ''" stub 0]
      command_line_is_cut_at_each_space [of "''Magnet On''" stub 0]
    by simp
qed

theorem whitespace_runs_counterexample:
  "parse_command ''move e4'' = (''move'', [''e4'']) \<and>
   parse_command ''move  e4'' = (''move'', ['''', ''e4'']) \<and>
   parse_command [CHR ''m'', CHR ''o'', CHR ''v'', CHR ''e'', CHR 0x09, CHR ''e'', CHR ''4''] =
     ([CHR ''m'', CHR ''o'', CHR ''v'', CHR ''e'', CHR 0x09, CHR ''e'', CHR ''4''], []) \<and>
   fst (snd (execute_command stub ''move e4'' 0)) = Returned \<and>
   fst (snd (execute_command stub ''move  e4'' 0)) = Raised ValueError"
  by (simp add: string_ev cmd_defs square_ev stub_simps)

section \<open>The command queue\<close>

lemma pop_step_queue:
  "handled (pop_step C w) @ commands (pop_step C w) = handled w @ commands w"
  by (auto simp: pop_step_def split: list.splits prod.splits)

lemma refresh_queue:
  "handled (refresh C w) = handled w" "commands (refresh C w) = commands w"
  by (auto simp: refresh_def publish_def store_text_def store_color_def
      split: prod.splits sum.splits)

lemma step_queue:
  "handled (step C a w) @ commands (step C a w) = handled w @ commands w @ submitted [a]"
  by (cases a)
    (simp_all add: get_status_line_def get_status_line_color_def enqueue_def refresh_queue
      poll_thread pop_step_queue)

lemma submitted_Cons: "submitted (a # as) = submitted [a] @ submitted as"
  by (cases a) simp_all

lemma exec_queue:
  "handled (exec C acts w) @ commands (exec C acts w) = handled w @ commands w @ submitted acts"
proof (induction acts arbitrary: w)
  case Nil
  then show ?case by simp
next
  case (Cons a acts)
  have "handled (exec C (a # acts) w) @ commands (exec C (a # acts) w) =
        handled (step C a w) @ commands (step C a w) @ submitted acts"
    using Cons.IH [of "step C a w"] by simp
  also have "\<dots> = (handled w @ commands w @ submitted [a]) @ submitted acts"
    using step_queue [of C a w] by (metis append.assoc)
  finally show ?case using submitted_Cons [of a acts] by simp
qed

lemma start_queue: "handled (start C g) = [] \<and> commands (start C g) = []"
  by (simp add: start_ev split: prod.splits)

lemma drain_alive:
  "crashed (drain C w) = None \<Longrightarrow>
     commands (drain C w) = [] \<and> handled (drain C w) = handled w @ commands w"
proof (induction C w rule: drain.induct)
  case (1 C w)
  show ?case
  proof (cases "crashed w = None \<and> commands w \<noteq> []")
    case True
    then have d: "drain C w = drain C (pop_step C w)"
      by (subst drain.simps) simp
    then have "crashed (drain C (pop_step C w)) = None" using "1.prems" by simp
    then have "commands (drain C (pop_step C w)) = [] \<and>
      handled (drain C (pop_step C w)) = handled (pop_step C w) @ commands (pop_step C w)"
      using "1.IH" True by simp
    then show ?thesis using d pop_step_queue [of C w] by simp
  next
    case False
    then have d: "drain C w = w" by (subst drain.simps) auto
    then have "crashed w = None" using "1.prems" by simp
    then have "commands w = []" using False by simp
    then show ?thesis using d by simp
  qed
qed

lemma dead_exec: "crashed w \<noteq> None \<Longrightarrow> crashed (exec C acts w) \<noteq> None \<and> handled (exec C acts w) = handled w"
proof (induction acts arbitrary: w)
  case Nil
  then show ?case by simp
next
  case (Cons a acts)
  have "crashed (step C a w) \<noteq> None \<and> handled (step C a w) = handled w"
    using Cons.prems
    by (cases a)
      (auto simp: get_status_line_def get_status_line_color_def enqueue_def refresh_def
        poll_def pop_step_def)
  then show ?case using Cons.IH [of "step C a w"] by simp
qed

lemma drain_is_pops: "drain C w = exec C (replicate (length (commands w)) Pop) w"
proof (induction C w rule: drain.induct)
  case (1 C w)
  show ?case
  proof (cases "crashed w = None")
    case False
    then have d: "drain C w = w" by (subst drain.simps) auto
    have "pop_step C w = w" using False by (simp add: pop_step_def)
    then have "exec C (replicate n Pop) w = w" for n
      by (induction n) simp_all
    then show ?thesis using d by simp
  next
    case True
    show ?thesis
    proof (cases "commands w")
      case Nil
      then show ?thesis by (subst drain.simps) simp
    next
      case (Cons c cs)
      then have d: "drain C w = drain C (pop_step C w)"
        using True by (subst drain.simps) simp
      have l: "length (commands (pop_step C w)) = length cs"
        using True Cons by (simp add: pop_step_def split: prod.splits)
      show ?thesis using d "1.IH" True Cons l by simp
    qed
  qed
qed

text \<open>
  Claim C3, as the code has it.  In every schedule of submissions and worker steps that
  starts when the loop is entered, the commands passed to \<^verbatim>\<open>execute_command\<close>
  followed by the commands still in the deque are exactly the commands submitted, in
  submission order: each submitted command is passed at most once, none out of order,
  and none leaves the deque otherwise.  The inner loop of \<^verbatim>\<open>run\<close> is a run of such
  steps; when it ends without an exception the deque is empty and all the commands that
  were pending have been passed.  Once a command has raised (\<open>exit\<close> included), \<^verbatim>\<open>run\<close>
  has ended and the commands that are in the deque or arrive later are never passed.
\<close>

theorem commands_handled_in_order_while_worker_runs:
  "handled (exec C acts (start C g)) @ commands (exec C acts (start C g)) = submitted acts \<and>
   drain C w = exec C (replicate (length (commands w)) Pop) w \<and>
   (crashed (drain C w) = None \<longrightarrow>
      commands (drain C w) = [] \<and> handled (drain C w) = handled w @ commands w) \<and>
   (crashed w \<noteq> None \<longrightarrow> handled (exec C acts w) = handled w)"
  using exec_queue [of C acts "start C g"] start_queue [of C g] drain_is_pops [of C w]
    drain_alive [of C w] dead_exec [of w C acts]
  by simp

theorem commands_handled_in_order_while_worker_runs_witness:
  "handled (exec stub [Enqueue ''magnet on'', Pop, Enqueue ''leds full_white'',
      Enqueue ''autoplay off''] (start stub 0)) = [''magnet on''] \<and>
   commands (exec stub [Enqueue ''magnet on'', Pop, Enqueue ''leds full_white'',
      Enqueue ''autoplay off''] (start stub 0)) = [''leds full_white'', ''autoplay off''] \<and>
   crashed (drain stub (enqueue ''autoplay off'' (enqueue ''magnet on'' (start stub 0)))) = None \<and>
   commands (drain stub (enqueue ''autoplay off'' (enqueue ''magnet on'' (start stub 0)))) = [] \<and>
   handled (drain stub (enqueue ''autoplay off'' (enqueue ''magnet on'' (start stub 0)))) =
     [''magnet on'', ''autoplay off''] \<and>
   crashed (pop_step stub (enqueue ''exit'' (start stub 0))) \<noteq> None \<and>
   handled (exec stub [Enqueue ''magnet on'', Pop, Refresh, Poll, Pop]
      (pop_step stub (enqueue ''exit'' (start stub 0)))) = [''exit'']"
proof -
  let ?acts = "[Enqueue ''magnet on'', Pop, Enqueue ''leds full_white'', Enqueue ''autoplay off'']"
  let ?w = "enqueue ''autoplay off'' (enqueue ''magnet on'' (start stub 0))"
  let ?d = "pop_step stub (enqueue ''exit'' (start stub 0))"
  have m: "execute_command stub ''magnet on'' g =
      ([Print [''Turning magnet'', ''ON''], SetElectromagnet True], Returned, g)" for g
    by (simp add: cmd_defs string_ev stub_simps on_off_def)
  have a: "execute_command stub ''autoplay off'' g = ([SetAutoplay False], Returned, g)" for g
    by (simp add: cmd_defs string_ev stub_simps)
  have x: "execute_command stub ''exit'' g = ([], Raised (SystemExit 0), g)" for g
    by (simp add: cmd_defs string_ev)
  have h1: "handled (exec stub ?acts (start stub 0)) = [''magnet on'']"
    by (simp add: enqueue_def pop_step_def start_ev stub_simps m)
  have w: "commands ?w = [''magnet on'', ''autoplay off'']" "handled ?w = []"
    by (simp_all add: enqueue_def start_ev stub_simps)
  have c: "crashed (drain stub ?w) = None"
    by (simp add: drain.simps enqueue_def pop_step_def start_ev stub_simps m a)
  have d: "crashed ?d \<noteq> None" "handled ?d = [''exit'']"
    by (simp_all add: enqueue_def pop_step_def start_ev stub_simps x)
  have t1: "[''magnet on''] @ commands (exec stub ?acts (start stub 0)) = submitted ?acts"
    using commands_handled_in_order_while_worker_runs [of stub ?acts 0] h1 by simp
  have t2: "commands (drain stub ?w) = [] \<and> handled (drain stub ?w) = handled ?w @ commands ?w"
    using commands_handled_in_order_while_worker_runs [of stub _ _ ?w] c by blast
  have t3: "handled (exec stub [Enqueue ''magnet on'', Pop, Refresh, Poll, Pop] ?d) = handled ?d"
    using commands_handled_in_order_while_worker_runs
      [of stub "[Enqueue ''magnet on'', Pop, Refresh, Poll, Pop]" _ ?d] d(1)
    by blast
  show ?thesis using h1 t1 c t2 w d t3 by simp
qed

theorem queued_command_never_handled_counterexample:
  "submitted [Enqueue ''move zz'', Enqueue ''magnet on'', Refresh, Poll, Pop, Pop, Refresh, Poll,
      Pop, Pop] = [''move zz'', ''magnet on''] \<and>
   handled (exec stub [Enqueue ''move zz'', Enqueue ''magnet on'', Refresh, Poll, Pop, Pop,
      Refresh, Poll, Pop, Pop] (start stub 0)) = [''move zz''] \<and>
   commands (exec stub [Enqueue ''move zz'', Enqueue ''magnet on'', Refresh, Poll, Pop, Pop,
      Refresh, Poll, Pop, Pop] (start stub 0)) = [''magnet on''] \<and>
   handled (run_iteration stub (run_iteration stub
      (enqueue ''magnet on'' (enqueue ''move zz'' (start stub 0))))) = [''move zz'']"
proof -
  have z: "execute_command stub ''move zz'' g = ([], Raised ValueError, g)" for g
    by (simp add: cmd_defs string_ev square_ev)
  show ?thesis
    by (simp add: enqueue_def pop_step_def start_ev stub_simps z refresh_def poll_def
        make_statusline_def publish_def store_text_def store_color_def run_iteration_def
        drain.simps)
qed

section \<open>Reads of the snapshot while the worker runs\<close>

text \<open>
  Claim C9, as the code has it.  No lock guards the status line, its color or the
  staleness flag: the getters and the worker's stores act on the attributes directly,
  and a reader gets the color and the text by two calls.  The pair it gets is the
  snapshot held at the first call when no refresh of the worker takes effect between the
  two calls, whatever else the threads do.  When a refresh publishes \<open>S\<close> between them,
  the reader holds the earlier color with the text of \<open>S\<close>; and between the two stores of
  a publish the object itself holds the new color with the old text.
\<close>

theorem snapshot_pair_consistent_without_refresh_between:
  "(Refresh \<notin> set acts \<longrightarrow>
      (fst (get_status_line_color w),
       fst (get_status_line (exec C acts (snd (get_status_line_color w))))) = snapshot w) \<and>
   (crashed w = None \<and> status_line_stale w \<and> make_statusline C (game w) = (Inr S, g') \<longrightarrow>
      (fst (get_status_line_color w),
       fst (get_status_line (exec C [Refresh] (snd (get_status_line_color w))))) =
      (fst (snapshot w), snd S)) \<and>
   snapshot (store_color c w) = (c, snd (snapshot w)) \<and>
   publish S w = store_text (snd S) (store_color (fst S) w)"
proof -
  have a: "Refresh \<notin> set acts \<longrightarrow>
      (fst (get_status_line_color w),
       fst (get_status_line (exec C acts (snd (get_status_line_color w))))) = snapshot w"
    using exec_keeps_snapshot [of acts C w]
    by (simp add: snapshot_def get_status_line_def get_status_line_color_def)
  have b: "crashed w = None \<and> status_line_stale w \<and>
      make_statusline C (game w) = (Inr S, g') \<longrightarrow>
      (fst (get_status_line_color w),
       fst (get_status_line (exec C [Refresh] (snd (get_status_line_color w))))) =
      (fst (snapshot w), snd S)"
    by (simp add: snapshot_def get_status_line_def get_status_line_color_def refresh_def
        publish_def store_text_def store_color_def)
  have c: "snapshot (store_color c w) = (c, snd (snapshot w))"
    by (simp add: snapshot_def get_status_line_def get_status_line_color_def store_color_def)
  show ?thesis using a b c by (simp add: publish_def)
qed

theorem snapshot_pair_consistent_without_refresh_between_witness:
  "Refresh \<notin> set [Poll, Enqueue ''magnet on'', Pop, GetStatusLineColor] \<and>
   (fst (get_status_line_color (start stub 0)),
    fst (get_status_line (exec stub [Poll, Enqueue ''magnet on'', Pop, GetStatusLineColor]
           (snd (get_status_line_color (start stub 0)))))) = (''bg:ansigray'', ''Loading...'') \<and>
   crashed (start stub 0) = None \<and> status_line_stale (start stub 0) \<and>
   make_statusline stub (game (start stub 0)) =
     (Inr (''bg:ansigreen'', ''State: READY / Gantry: (0, 0) / Magnet: OFF''), 2) \<and>
   (fst (get_status_line_color (start stub 0)),
    fst (get_status_line (exec stub [Refresh] (snd (get_status_line_color (start stub 0)))))) =
     (''bg:ansigray'', ''State: READY / Gantry: (0, 0) / Magnet: OFF'')"
proof -
  let ?acts = "[Poll, Enqueue ''magnet on'', Pop, GetStatusLineColor]"
  have n: "Refresh \<notin> set ?acts" by simp
  have s: "snapshot (start stub 0) = (''bg:ansigray'', ''Loading...'')"
    by (simp add: snapshot_def get_status_line_def get_status_line_color_def start_ev
        stub_simps)
  have w: "crashed (start stub 0) = None" "status_line_stale (start stub 0)"
    by (simp_all add: start_ev stub_simps)
  have m: "make_statusline stub (game (start stub 0)) =
     (Inr (''bg:ansigreen'', ''State: READY / Gantry: (0, 0) / Magnet: OFF''), 2)"
    by (simp add: make_statusline_def start_ev stub_simps statusline_color_def dict_get_def
        GAME_STATE_STATUSLINE_COLORS_def on_off_def)
  show ?thesis
    using n s w m
      snapshot_pair_consistent_without_refresh_between [of ?acts "start stub 0" stub]
      snapshot_pair_consistent_without_refresh_between
        [of _ "start stub 0" stub "(''bg:ansigreen'', ''State: READY / Gantry: (0, 0) / Magnet: OFF'')" 2]
    by simp
qed

theorem torn_snapshot_counterexample:
  "snapshot (start stub 0) = (''bg:ansigray'', ''Loading...'') \<and>
   snapshot (refresh stub (start stub 0)) =
     (''bg:ansigreen'', ''State: READY / Gantry: (0, 0) / Magnet: OFF'') \<and>
   (fst (get_status_line_color (start stub 0)),
    fst (get_status_line (refresh stub (snd (get_status_line_color (start stub 0)))))) =
     (''bg:ansigray'', ''State: READY / Gantry: (0, 0) / Magnet: OFF'')"
  by (simp add: snapshot_def get_status_line_def get_status_line_color_def refresh_def start_ev
      make_statusline_def stub_simps statusline_color_def dict_get_def
      GAME_STATE_STATUSLINE_COLORS_def on_off_def publish_def store_color_def store_text_def)

end
